theory Spec2Isabelle
  imports Main "HOL-Library.Multiset"
begin

section \<open>Data model\<close>

text \<open>
  The scripts pass Python dictionaries around. A dictionary with a fixed set of keys is
  modelled as a record. The code reads the optional keys of a job record only through
  \<^verbatim>\<open>dict.get\<close>, which gives \<^verbatim>\<open>None\<close> for an absent key as well as for a key
  holding null, so one \<open>None\<close> stands for both. Coordinates are integers (or null), and
  strings are ASCII text.
\<close>

record primer_pair =
  forward_start :: "int option"
  forward_end :: "int option"
  forward_sequence :: "string option"
  reverse_start :: "int option"
  reverse_end :: "int option"
  reverse_sequence :: "string option"
  product_length :: "int option"
  pair_index :: "nat option"

text \<open>
  The dictionary \<^verbatim>\<open>validation\<close> built by \<^verbatim>\<open>validate_job\<close>. Its key
  \<^verbatim>\<open>sequences_match\<close> is the field \<open>sequences_match\<close>; the key of the same name that
  \<^verbatim>\<open>validate_job\<close> also stores in the job record itself is the field
  \<open>job_sequences_match\<close> below.
\<close>

record validation =
  forward_start_match :: bool
  reverse_start_match :: bool
  product_size_match :: bool
  sequences_match :: bool

record job_info =
  primer_id :: string
  forward_primer :: "string option"
  reverse_primer :: "string option"
  product_size :: "int option"
  left_primer_start :: "int option"
  right_primer_start :: "int option"
  job_key :: "string option"
  results_url :: "string option"
  validation_status :: "string option"
  total_primer_pairs_found :: "nat option"
  matched_pair_index :: "nat option"
  used_matching_algorithm :: "bool option"
  extracted_forward_sequence :: "string option"
  extracted_forward_start :: "int option"
  extracted_forward_end :: "int option"
  extracted_reverse_sequence :: "string option"
  extracted_reverse_start :: "int option"
  extracted_reverse_end :: "int option"
  extracted_product_length :: "int option"
  job_sequences_match :: "bool option"
  validation :: "validation option"
  validation_passed :: "bool option"

section \<open>Job submitter: product size bands\<close>

text \<open>\<^verbatim>\<open>PrimerBlastSubmitter._determine_product_size_range\<close>.\<close>

definition determine_product_size_range :: "int \<Rightarrow> int \<times> int" where
  "determine_product_size_range size_estimate =
     (if size_estimate < 150 then (100, 200)
      else if size_estimate \<le> 200 then (150, 200)
      else (300, 500))"

section \<open>Pair matcher\<close>

text \<open>
  The three tests \<^verbatim>\<open>find_matching_pair\<close> makes on one pair: an expected value that is
  \<^verbatim>\<open>None\<close>, or an extracted field that is \<^verbatim>\<open>None\<close>, does not disqualify.
\<close>

definition loose_eq :: "int option \<Rightarrow> int option \<Rightarrow> bool" where
  "loose_eq expected extracted =
     (case expected of None \<Rightarrow> True
      | Some e \<Rightarrow> (case extracted of None \<Rightarrow> True | Some x \<Rightarrow> e = x))"

definition pair_matches :: "job_info \<Rightarrow> primer_pair \<Rightarrow> bool" where
  "pair_matches job pair =
     (let fwd_match = loose_eq (left_primer_start job) (forward_start pair);
          rev_match = loose_eq (right_primer_start job) (reverse_start pair);
          size_match = loose_eq (product_size job) (product_length pair)
      in fwd_match \<and> rev_match \<and> size_match)"

text \<open>The \<^verbatim>\<open>for pair in all_pairs\<close> loop: \<open>Some pair\<close> where it returns from inside.\<close>

fun matching_loop :: "primer_pair list \<Rightarrow> job_info \<Rightarrow> primer_pair option" where
  "matching_loop [] job = None"
| "matching_loop (pair # rest) job =
     (if pair_matches job pair then Some pair else matching_loop rest job)"

definition find_matching_pair ::
  "primer_pair list \<Rightarrow> job_info \<Rightarrow> primer_pair option \<times> bool" where
  "find_matching_pair all_pairs job =
     (case matching_loop all_pairs job of
        Some pair \<Rightarrow> (Some pair, True)
      | None \<Rightarrow> ((case all_pairs of [] \<Rightarrow> None | first # _ \<Rightarrow> Some first), False))"

text \<open>
  The condition of the specification on one expected value and one extracted field: the
  expected value is absent, or the extracted field is null, or the two integers are
  equal.
\<close>

definition value_ok :: "int option \<Rightarrow> int option \<Rightarrow> bool" where
  "value_ok expected extracted = (expected = None \<or> extracted = None \<or> expected = extracted)"

definition satisfies_all_three :: "job_info \<Rightarrow> primer_pair \<Rightarrow> bool" where
  "satisfies_all_three job pair =
     (value_ok (left_primer_start job) (forward_start pair) \<and>
      value_ok (right_primer_start job) (reverse_start pair) \<and>
      value_ok (product_size job) (product_length pair))"

section \<open>Text handling\<close>

text \<open>
  \<^verbatim>\<open>str.lower\<close> and \<^verbatim>\<open>str.upper\<close> on ASCII text: the 26 letters change case, every
  other character stays.
\<close>

definition lower_char :: "char \<Rightarrow> char" where
  "lower_char c =
     (let n = (of_char c :: nat) in if 65 \<le> n \<and> n \<le> 90 then char_of (n + 32) else c)"

definition upper_char :: "char \<Rightarrow> char" where
  "upper_char c =
     (let n = (of_char c :: nat) in if 97 \<le> n \<and> n \<le> 122 then char_of (n - 32) else c)"

definition lower :: "string \<Rightarrow> string" where
  "lower s = map lower_char s"

definition upper :: "string \<Rightarrow> string" where
  "upper s = map upper_char s"

text \<open>The test \<^verbatim>\<open>needle in haystack\<close> on strings.\<close>

fun starts_with :: "string \<Rightarrow> string \<Rightarrow> bool" where
  "starts_with [] s = True"
| "starts_with (c # cs) [] = False"
| "starts_with (c # cs) (x # xs) = (c = x \<and> starts_with cs xs)"

fun contains :: "string \<Rightarrow> string \<Rightarrow> bool" where
  "contains needle [] = (needle = [])"
| "contains needle (x # xs) = (starts_with needle (x # xs) \<or> contains needle xs)"

text \<open>
  \<^verbatim>\<open>int(s)\<close> on a string of decimal digits, as the patterns capture with
  \<^verbatim>\<open>(\d+)\<close>. The result is unbounded; the limit that an interpreter may put on the
  number of digits it converts is not modelled.
\<close>

definition int_of_digits :: "string \<Rightarrow> int" where
  "int_of_digits s = foldl (\<lambda>acc c. 10 * acc + (int (of_char c) - 48)) 0 s"

section \<open>Regular expressions\<close>

text \<open>
  The patterns of the extractor are sequences of single characters and of character
  classes under \<^verbatim>\<open>*\<close> or \<^verbatim>\<open>+\<close>; every capturing group is one class under \<^verbatim>\<open>+\<close>.
  A pattern is a list of such items. Matching is Python's: each repetition is greedy
  and gives characters back one at a time when the rest of the pattern fails.
\<close>

type_synonym cclass = "char \<Rightarrow> bool"

datatype item = Chr cclass | Star cclass | Plus cclass | Group cclass

text \<open>
  Character classes, all under \<^verbatim>\<open>re.IGNORECASE\<close>, on ASCII text: \<open>digit\<close> is
  \<^verbatim>\<open>\d\<close> and \<open>whitespace\<close> is \<^verbatim>\<open>\s\<close>, which for a Python string takes the
  codes 9 to 13 and 28 to 32.
\<close>

definition same_letter :: "char \<Rightarrow> cclass" where
  "same_letter c x = (lower_char x = lower_char c)"

definition one_of :: "string \<Rightarrow> cclass" where
  "one_of cs x = (lower_char x \<in> set (map lower_char cs))"

definition none_of :: "string \<Rightarrow> cclass" where
  "none_of cs x = (x \<notin> set cs)"

definition digit :: cclass where
  "digit x = (let n = (of_char x :: nat) in 48 \<le> n \<and> n \<le> 57)"

definition whitespace :: cclass where
  "whitespace x = (let n = (of_char x :: nat) in (9 \<le> n \<and> n \<le> 13) \<or> (28 \<le> n \<and> n \<le> 32))"

definition lit :: "string \<Rightarrow> item list" where
  "lit s = map (\<lambda>c. Chr (same_letter c)) s"

text \<open>The first alternative that succeeds, in the order tried.\<close>

fun first_some :: "('a \<Rightarrow> 'b option) \<Rightarrow> 'a list \<Rightarrow> 'b option" where
  "first_some f [] = None"
| "first_some f (k # ks) = (case f k of Some r \<Rightarrow> Some r | None \<Rightarrow> first_some f ks)"

text \<open>
  \<open>match_here p s\<close> matches the pattern at the start of \<open>s\<close>: the captured groups and
  the text left after the match. A repetition tries its longest run first.
\<close>

fun match_here :: "item list \<Rightarrow> string \<Rightarrow> (string list \<times> string) option" where
  "match_here [] s = Some ([], s)"
| "match_here (Chr c # p) s =
     (case s of [] \<Rightarrow> None | x # xs \<Rightarrow> if c x then match_here p xs else None)"
| "match_here (Star c # p) s =
     first_some (\<lambda>k. match_here p (drop k s)) (rev [0 ..< Suc (length (takeWhile c s))])"
| "match_here (Plus c # p) s =
     first_some (\<lambda>k. match_here p (drop k s)) (rev [1 ..< Suc (length (takeWhile c s))])"
| "match_here (Group c # p) s =
     first_some (\<lambda>k. map_option (\<lambda>(gs, r). (take k s # gs, r)) (match_here p (drop k s)))
       (rev [1 ..< Suc (length (takeWhile c s))])"

text \<open>
  \<^verbatim>\<open>re.search\<close>: the leftmost position where the pattern matches, as the text before
  the match, the groups, and the text after it.
\<close>

fun re_search :: "item list \<Rightarrow> string \<Rightarrow> (string \<times> string list \<times> string) option" where
  "re_search p [] = map_option (\<lambda>(gs, r). ([], gs, r)) (match_here p [])"
| "re_search p (x # xs) =
     (case match_here p (x # xs) of
        Some (gs, r) \<Rightarrow> Some ([], gs, r)
      | None \<Rightarrow> map_option (\<lambda>(pre, gs, r). (x # pre, gs, r)) (re_search p xs))"

text \<open>
  \<^verbatim>\<open>re.split\<close> for a pattern without groups whose matches are never empty: the text
  between successive leftmost matches. (The branch for a match that consumes nothing is
  not Python's rule for empty matches; \<open>section_header\<close> below, the only pattern split
  on, cannot reach it.)
\<close>

function re_split :: "item list \<Rightarrow> string \<Rightarrow> string list" where
  "re_split p s =
     (case re_search p s of
        None \<Rightarrow> [s]
      | Some (pre, gs, r) \<Rightarrow> if length r < length s then pre # re_split p r else [s])"
  by pat_completeness auto
termination
  by (relation "measure (\<lambda>(p, s). length s)") auto

declare re_split.simps [simp del]

text \<open>The number of groups of a pattern, and the least number of characters it consumes.\<close>

fun groups_of :: "item list \<Rightarrow> nat" where
  "groups_of [] = 0"
| "groups_of (Group c # p) = Suc (groups_of p)"
| "groups_of (i # p) = groups_of p"

fun min_length :: "item list \<Rightarrow> nat" where
  "min_length [] = 0"
| "min_length (Star c # p) = min_length p"
| "min_length (i # p) = Suc (min_length p)"

section \<open>Pair extractor\<close>

text \<open>\<^verbatim>\<open><h3[^>]*>Primer pair \d+</h3>\<close>\<close>

definition section_header :: "item list" where
  "section_header =
     lit ''<h3'' @ [Star (none_of ''>'')] @ lit ''>Primer pair '' @ [Plus digit] @ lit ''</h3>''"

text \<open>
  \<^verbatim>\<open><tr><th>Forward\s+primer</th><td>([ATCGN]+)</td><td>([^<]+)</td><td>(\d+)</td><td>(\d+)</td><td>(\d+)</td>\<close>
  and the same for the reverse primer.
\<close>

definition primer_row :: "string \<Rightarrow> item list" where
  "primer_row direction =
     lit ''<tr><th>'' @ lit direction @ [Plus whitespace] @ lit ''primer</th><td>'' @
     [Group (one_of ''ATCGN'')] @ lit ''</td><td>'' @ [Group (none_of ''<'')] @
     lit ''</td><td>'' @ [Group digit] @ lit ''</td><td>'' @ [Group digit] @
     lit ''</td><td>'' @ [Group digit] @ lit ''</td>''"

definition forward_pattern :: "item list" where
  "forward_pattern = primer_row ''Forward''"

definition reverse_pattern :: "item list" where
  "reverse_pattern = primer_row ''Reverse''"

text \<open>\<^verbatim>\<open><tr><th>Product\s+length</th><td[^>]*>(\d+)</td></tr>\<close>\<close>

definition product_pattern :: "item list" where
  "product_pattern =
     lit ''<tr><th>Product'' @ [Plus whitespace] @ lit ''length</th><td'' @
     [Star (none_of ''>'')] @ lit ''>'' @ [Group digit] @ lit ''</td></tr>''"

text \<open>
  What \<^verbatim>\<open>_extract_single_pair\<close> reads from a match of a primer row: group 1 as the
  sequence, and groups 4 and 5 through \<^verbatim>\<open>int\<close> as start and stop. \<open>None\<close> when the
  search finds no match.
\<close>

definition primer_row_match :: "item list \<Rightarrow> string \<Rightarrow> (string \<times> int \<times> int) option" where
  "primer_row_match pattern html_content =
     (case re_search pattern html_content of
        Some (_, [sequence, strand, len, start, stop], _) \<Rightarrow>
          Some (sequence, int_of_digits start, int_of_digits stop)
      | _ \<Rightarrow> None)"

definition product_match :: "string \<Rightarrow> int option" where
  "product_match html_content =
     (case re_search product_pattern html_content of
        Some (_, [len], _) \<Rightarrow> Some (int_of_digits len)
      | _ \<Rightarrow> None)"

text \<open>\<^verbatim>\<open>PrimerBlastValidator._extract_single_pair\<close> (the log messages left out).\<close>

definition extract_single_pair :: "string \<Rightarrow> nat option \<Rightarrow> primer_pair" where
  "extract_single_pair html_content idx =
     (let result = \<lparr>forward_start = None, forward_end = None, forward_sequence = None,
                     reverse_start = None, reverse_end = None, reverse_sequence = None,
                     product_length = None, pair_index = idx\<rparr>;
          result = (case primer_row_match forward_pattern html_content of
                      Some (sequence, start, stop) \<Rightarrow>
                        result\<lparr>forward_sequence := Some sequence,
                               forward_start := Some start, forward_end := Some stop\<rparr>
                    | None \<Rightarrow> result);
          result = (case primer_row_match reverse_pattern html_content of
                      Some (sequence, start, stop) \<Rightarrow>
                        result\<lparr>reverse_sequence := Some sequence,
                               reverse_start := Some start, reverse_end := Some stop\<rparr>
                    | None \<Rightarrow> result);
          result = (case product_match html_content of
                      Some len \<Rightarrow> result\<lparr>product_length := Some len\<rparr>
                    | None \<Rightarrow> result)
      in result)"

text \<open>
  \<^verbatim>\<open>PrimerBlastValidator.extract_all_primer_pairs\<close>: \<open>pair_sections_of\<close> is the
  split with the choice of the sections, \<open>List.enumerate 1\<close> is
  \<^verbatim>\<open>enumerate(pair_sections, 1)\<close>, and the \<open>filter\<close> is the test before
  \<^verbatim>\<open>all_pairs.append\<close>.
\<close>

definition pair_sections_of :: "string \<Rightarrow> string list" where
  "pair_sections_of html_content =
     (let pair_sections = re_split section_header html_content
      in if length pair_sections \<le> 1 then [html_content] else tl pair_sections)"

definition extract_all_primer_pairs :: "string \<Rightarrow> primer_pair list" where
  "extract_all_primer_pairs html_content =
     filter (\<lambda>pair_data. forward_start pair_data \<noteq> None)
       (map (\<lambda>(idx, sec). extract_single_pair sec (Some idx))
          (List.enumerate 1 (pair_sections_of html_content)))"

section \<open>Validation of one job\<close>

text \<open>
  The external service is a function from a URL to the text of the page, or \<open>None\<close>
  where \<^verbatim>\<open>requests.get\<close> or \<^verbatim>\<open>raise_for_status\<close> raises.
  \<^verbatim>\<open>fetch_results\<close> returns the page together with the requests it has sent; the
  pause of the rate limiter and the console output are left out.
\<close>

type_synonym network = "string \<Rightarrow> string option"

definition fetch_results :: "network \<Rightarrow> string \<Rightarrow> string option \<times> string list" where
  "fetch_results net url = (net url, [url])"

text \<open>Python's truth value of a string or \<^verbatim>\<open>None\<close>.\<close>

definition truthy :: "string option \<Rightarrow> bool" where
  "truthy v = (case v of None \<Rightarrow> False | Some s \<Rightarrow> s \<noteq> [])"

text \<open>
  The guard and the comparison of one sequence check:
  \<^verbatim>\<open>if matched_pair[k] and job_info.get(k'): if matched_pair[k].upper() != job_info[k'].upper()\<close>.
\<close>

definition sequence_mismatch :: "string option \<Rightarrow> string option \<Rightarrow> bool" where
  "sequence_mismatch extracted expected =
     (case extracted of None \<Rightarrow> False
      | Some x \<Rightarrow> (case expected of None \<Rightarrow> False
          | Some e \<Rightarrow> truthy extracted \<and> truthy expected \<and> upper x \<noteq> upper e))"

text \<open>
  One coordinate check: the entry of \<^verbatim>\<open>validation\<close> starts as \<^verbatim>\<open>False\<close> and is
  assigned only when both values are not \<^verbatim>\<open>None\<close>.
\<close>

definition coordinate_check :: "int option \<Rightarrow> int option \<Rightarrow> bool" where
  "coordinate_check expected extracted =
     (case expected of None \<Rightarrow> False
      | Some e \<Rightarrow> (case extracted of None \<Rightarrow> False | Some x \<Rightarrow> e = x))"

text \<open>
  \<^verbatim>\<open>validate_job\<close> from the line that stores \<^verbatim>\<open>matched_pair_index\<close> to its end: the
  extracted data, the sequence check, the coordinate checks and the verdict.
\<close>

definition validate_against :: "job_info \<Rightarrow> primer_pair \<Rightarrow> bool \<Rightarrow> job_info" where
  "validate_against job matched_pair match_found =
     (let job = job\<lparr>matched_pair_index := pair_index matched_pair,
                     used_matching_algorithm := Some match_found,
                     extracted_forward_sequence := forward_sequence matched_pair,
                     extracted_forward_start := forward_start matched_pair,
                     extracted_forward_end := forward_end matched_pair,
                     extracted_reverse_sequence := reverse_sequence matched_pair,
                     extracted_reverse_start := reverse_start matched_pair,
                     extracted_reverse_end := reverse_end matched_pair,
                     extracted_product_length := product_length matched_pair\<rparr>;
          sequence_match = True;
          sequence_match =
            (if sequence_mismatch (forward_sequence matched_pair) (forward_primer job)
             then False else sequence_match);
          sequence_match =
            (if sequence_mismatch (reverse_sequence matched_pair) (reverse_primer job)
             then False else sequence_match);
          job = job\<lparr>job_sequences_match := Some sequence_match\<rparr>;
          checks = \<lparr>forward_start_match =
                      coordinate_check (left_primer_start job) (forward_start matched_pair),
                    reverse_start_match =
                      coordinate_check (right_primer_start job) (reverse_start matched_pair),
                    product_size_match =
                      coordinate_check (product_size job) (product_length matched_pair),
                    sequences_match = sequence_match\<rparr>;
          passed = (forward_start_match checks \<and> reverse_start_match checks \<and>
                    product_size_match checks \<and> sequences_match checks);
          job = job\<lparr>validation := Some checks, validation_passed := Some passed\<rparr>
      in if passed then job\<lparr>validation_status := Some ''pass''\<rparr>
         else job\<lparr>validation_status := Some ''fail''\<rparr>)"

text \<open>
  \<^verbatim>\<open>validate_job\<close> from the test of the fetched page to the call of the matcher.
\<close>

definition validate_page :: "string option \<Rightarrow> job_info \<Rightarrow> job_info" where
  "validate_page html job =
     (case html of
        None \<Rightarrow> job\<lparr>validation_status := Some ''fetch_failed''\<rparr>
      | Some h \<Rightarrow>
          if h = [] then job\<lparr>validation_status := Some ''fetch_failed''\<rparr>
          else if contains ''processing'' (lower h) \<or> contains ''queued'' (lower h)
          then job\<lparr>validation_status := Some ''processing''\<rparr>
          else if contains ''No primer pairs found'' h
          then job\<lparr>validation_status := Some ''no_primers''\<rparr>
          else
            (let all_pairs = extract_all_primer_pairs h
             in if all_pairs = [] then job\<lparr>validation_status := Some ''extraction_failed''\<rparr>
                else
                  (let job = job\<lparr>total_primer_pairs_found := Some (length all_pairs)\<rparr>
                   in case find_matching_pair all_pairs job of
                        (None, match_found) \<Rightarrow>
                          job\<lparr>validation_status := Some ''no_primer_data''\<rparr>
                      | (Some matched_pair, match_found) \<Rightarrow>
                          validate_against job matched_pair match_found)))"

text \<open>
  \<^verbatim>\<open>PrimerBlastValidator.validate_job\<close>: the updated job record and the requests sent.
\<close>

definition validate_job :: "network \<Rightarrow> job_info \<Rightarrow> job_info \<times> string list" where
  "validate_job net job =
     (case results_url job of
        None \<Rightarrow> (job\<lparr>validation_status := Some ''no_url''\<rparr>, [])
      | Some url \<Rightarrow>
          if url = [] then (job\<lparr>validation_status := Some ''no_url''\<rparr>, [])
          else (let (html, requests) = fetch_results net url
                in (validate_page html job, requests)))"

text \<open>
  The page on which \<^verbatim>\<open>validate_job\<close> runs the extractor: the job has a result URL,
  the fetch gives a non-empty page, and the page neither reports a job in progress nor
  the absence of primer pairs.
\<close>

definition page_to_extract :: "network \<Rightarrow> job_info \<Rightarrow> string option" where
  "page_to_extract net job =
     (case results_url job of
        None \<Rightarrow> None
      | Some url \<Rightarrow>
          if url = [] then None
          else (case net url of
                  None \<Rightarrow> None
                | Some h \<Rightarrow>
                    if h = [] \<or> contains ''processing'' (lower h) \<or> contains ''queued'' (lower h)
                       \<or> contains ''No primer pairs found'' h
                    then None else Some h))"

text \<open>
  The job reaches the coordinate checks when the extractor finds a pair on that page,
  and then they are made against the pair the matcher returns.
\<close>

definition pairs_extracted :: "network \<Rightarrow> job_info \<Rightarrow> primer_pair list option" where
  "pairs_extracted net job = map_option extract_all_primer_pairs (page_to_extract net job)"

section \<open>Validation of a batch\<close>



datatype error = ZeroDivisionError | IndexError

text \<open>
  The state of the collecting loop: the slot list, the counter, and what this run has
  last written to the output file (a JSON array, \<open>None\<close> for a null entry).
\<close>

record run_state =
  validated_jobs :: "job_info option list"
  completed_count :: int
  output_file :: "job_info option list option"

text \<open>
  The loop \<^verbatim>\<open>for future in as_completed(future_to_idx)\<close> over the results in the order
  the futures complete.
\<close>

fun collect :: "int \<Rightarrow> (nat \<times> job_info) list \<Rightarrow> run_state \<Rightarrow> error + run_state" where
  "collect checkpoint_interval [] st = Inr st"
| "collect checkpoint_interval ((idx, validated_job) # rest) st =
     (if length (validated_jobs st) \<le> idx then Inl IndexError
      else
        (let st = st\<lparr>validated_jobs := (validated_jobs st)[idx := Some validated_job],
                      completed_count := completed_count st + 1\<rparr>
         in if checkpoint_interval = 0 then Inl ZeroDivisionError
            else if completed_count st mod checkpoint_interval = 0
            then collect checkpoint_interval rest
                   (st\<lparr>output_file := Some (filter (\<lambda>j. j \<noteq> None) (validated_jobs st))\<rparr>)
            else collect checkpoint_interval rest st))"


section \<open>Example inputs\<close>

text \<open>A service that answers every request with the same page.\<close>

definition serve :: "string \<Rightarrow> network" where
  "serve page url = Some page"

text \<open>A result page with a forward primer row only, and a page without any primer row.\<close>

definition forward_row_page :: string where
  "forward_row_page =
     ''<tr><th>Forward primer</th><td>AC</td><td>Plus</td><td>2</td><td>78</td><td>79</td>''"

definition empty_result_page :: string where
  "empty_result_page = ''<p>done</p>''"

text \<open>
  A result page with two sections: the first pair starts at 5, the second has the
  coordinates that \<open>example_job\<close> below expects.
\<close>

definition two_pair_page :: string where
  "two_pair_page =
     ''<h3>Primer pair 1</h3><table><tr><th>Forward primer</th><td>AC</td><td>Plus</td><td>2</td><td>5</td><td>6</td></tr><tr><th>Reverse primer</th><td>GT</td><td>Minus</td><td>2</td><td>97</td><td>96</td></tr><tr><th>Product length</th><td>20</td></tr></table><h3>Primer pair 2</h3><table><tr><th>Forward primer</th><td>AC</td><td>Plus</td><td>2</td><td>78</td><td>79</td></tr><tr><th>Reverse primer</th><td>GT</td><td>Minus</td><td>2</td><td>97</td><td>96</td></tr><tr><th>Product length</th><td>20</td></tr></table>''"

definition forward_row_pair :: primer_pair where
  "forward_row_pair =
     \<lparr>forward_start = Some 78, forward_end = Some 79, forward_sequence = Some ''AC'',
      reverse_start = None, reverse_end = None, reverse_sequence = None,
      product_length = None, pair_index = Some 1\<rparr>"

definition other_pair :: primer_pair where
  "other_pair =
     \<lparr>forward_start = Some 5, forward_end = Some 6, forward_sequence = Some ''AC'',
      reverse_start = Some 97, reverse_end = Some 96, reverse_sequence = Some ''GT'',
      product_length = Some 20, pair_index = Some 1\<rparr>"

definition exact_pair :: primer_pair where
  "exact_pair =
     \<lparr>forward_start = Some 78, forward_end = Some 79, forward_sequence = Some ''AC'',
      reverse_start = Some 97, reverse_end = Some 96, reverse_sequence = Some ''GT'',
      product_length = Some 20, pair_index = Some 2\<rparr>"

definition example_job :: job_info where
  "example_job =
     \<lparr>primer_id = ''P1'', forward_primer = Some ''ac'', reverse_primer = Some ''GT'',
      product_size = Some 20, left_primer_start = Some 78, right_primer_start = Some 97,
      job_key = Some ''K1'', results_url = Some ''u'', validation_status = None,
      total_primer_pairs_found = None, matched_pair_index = None,
      used_matching_algorithm = None, extracted_forward_sequence = None,
      extracted_forward_start = None, extracted_forward_end = None,
      extracted_reverse_sequence = None, extracted_reverse_start = None,
      extracted_reverse_end = None, extracted_product_length = None,
      job_sequences_match = None, validation = None, validation_passed = None\<rparr>"


section \<open>Case conversion on the bits of a character\<close>

text \<open>
  The letters \<open>A\<close> to \<open>Z\<close> are the codes 65 to 90 and \<open>a\<close> to \<open>z\<close> the codes 97 to
  122: bit 6 set, bit 7 clear, the low five bits between 1 and 26, and bit 5 telling the
  case. These equations evaluate \<open>lower_char\<close> and \<open>upper_char\<close> without arithmetic.
\<close>

lemma lower_char_bits [code]:
  "lower_char (Char b0 b1 b2 b3 b4 b5 b6 b7) =
     (if \<not> b7 \<and> b6 \<and> \<not> b5 \<and> (b0 \<or> b1 \<or> b2 \<or> b3 \<or> b4) \<and>
         \<not> (b4 \<and> b3 \<and> (b2 \<or> (b1 \<and> b0)))
      then Char b0 b1 b2 b3 b4 True b6 b7 else Char b0 b1 b2 b3 b4 b5 b6 b7)"
  by (cases b0; cases b1; cases b2; cases b3; cases b4; cases b5; cases b6; cases b7)
     (simp_all add: lower_char_def char_of_def bit_Suc_0_iff)

lemma upper_char_bits [code]:
  "upper_char (Char b0 b1 b2 b3 b4 b5 b6 b7) =
     (if \<not> b7 \<and> b6 \<and> b5 \<and> (b0 \<or> b1 \<or> b2 \<or> b3 \<or> b4) \<and>
         \<not> (b4 \<and> b3 \<and> (b2 \<or> (b1 \<and> b0)))
      then Char b0 b1 b2 b3 b4 False b6 b7 else Char b0 b1 b2 b3 b4 b5 b6 b7)"
  by (cases b0; cases b1; cases b2; cases b3; cases b4; cases b5; cases b6; cases b7)
     (simp_all add: upper_char_def char_of_def bit_Suc_0_iff)

section \<open>Properties of the submitter\<close>

text \<open>
  C9: for every integer product size the submitter returns exactly one of the three
  fixed bands: (100, 200) below 150, (150, 200) from 150 to 200, and (300, 500) above
  200. Sizes up to 200 get a band narrower than the band of any size above 200.
\<close>

theorem determine_product_size_range_bands:
  "determine_product_size_range n \<in> {(100, 200), (150, 200), (300, 500)} \<and>
   (determine_product_size_range n = (100, 200)) = (n < 150) \<and>
   (determine_product_size_range n = (150, 200)) = (150 \<le> n \<and> n \<le> 200) \<and>
   (determine_product_size_range n = (300, 500)) = (200 < n) \<and>
   (snd (determine_product_size_range n) - fst (determine_product_size_range n) < 200)
     = (n \<le> 200)"
  by (simp add: determine_product_size_range_def)

section \<open>Properties of the matcher\<close>

lemma loose_eq_value_ok: "loose_eq e x = value_ok e x"
  by (cases e; cases x) (simp_all add: loose_eq_def value_ok_def)

lemma pair_matches_satisfies: "pair_matches job pair = satisfies_all_three job pair"
  by (simp add: pair_matches_def satisfies_all_three_def loose_eq_value_ok)

lemma matching_loop_find:
  "matching_loop all_pairs job = List.find (satisfies_all_three job) all_pairs"
  by (induction all_pairs) (simp_all add: pair_matches_satisfies)

text \<open>
  C1: for every list of extracted pairs and every job record, the matcher returns the
  first pair in extraction order for which each of the three expected values is absent,
  or the extracted field is null, or the two integers are equal, tagged confirmed; if no
  pair satisfies all three conditions it returns the first extracted pair, tagged
  unconfirmed.
\<close>

theorem find_matching_pair_first_match:
  "(i < length all_pairs \<and> satisfies_all_three job (all_pairs ! i) \<and>
    (\<forall>j<i. \<not> satisfies_all_three job (all_pairs ! j))
      \<longrightarrow> find_matching_pair all_pairs job = (Some (all_pairs ! i), True)) \<and>
   (all_pairs \<noteq> [] \<and> (\<forall>pair \<in> set all_pairs. \<not> satisfies_all_three job pair)
      \<longrightarrow> find_matching_pair all_pairs job = (Some (hd all_pairs), False))"
proof (intro conjI impI)
  assume "i < length all_pairs \<and> satisfies_all_three job (all_pairs ! i) \<and>
    (\<forall>j<i. \<not> satisfies_all_three job (all_pairs ! j))"
  then have "List.find (satisfies_all_three job) all_pairs = Some (all_pairs ! i)"
    unfolding find_Some_iff by blast
  then show "find_matching_pair all_pairs job = (Some (all_pairs ! i), True)"
    by (simp add: find_matching_pair_def matching_loop_find)
next
  assume a: "all_pairs \<noteq> [] \<and> (\<forall>pair \<in> set all_pairs. \<not> satisfies_all_three job pair)"
  then have "List.find (satisfies_all_three job) all_pairs = None"
    unfolding find_None_iff by blast
  with a show "find_matching_pair all_pairs job = (Some (hd all_pairs), False)"
    by (cases all_pairs) (simp_all add: find_matching_pair_def matching_loop_find)
qed

theorem find_matching_pair_first_match_witness:
  "find_matching_pair [other_pair, exact_pair] example_job = (Some exact_pair, True) \<and>
   find_matching_pair [other_pair] example_job = (Some other_pair, False)"
proof -
  have sat: "satisfies_all_three example_job exact_pair"
    by (simp add: satisfies_all_three_def value_ok_def example_job_def exact_pair_def)
  have unsat: "\<not> satisfies_all_three example_job other_pair"
    by (simp add: satisfies_all_three_def value_ok_def example_job_def other_pair_def)
  have "find_matching_pair [other_pair, exact_pair] example_job
          = (Some ([other_pair, exact_pair] ! 1), True)"
    using find_matching_pair_first_match [of 1 "[other_pair, exact_pair]" example_job]
      sat unsat by simp
  moreover have "find_matching_pair [other_pair] example_job = (Some (hd [other_pair]), False)"
    using find_matching_pair_first_match [of 0 "[other_pair]" example_job] unsat by simp
  ultimately show ?thesis by simp
qed

section \<open>Properties of the pattern matcher\<close>

lemma first_some_SomeD: "first_some f ks = Some r \<Longrightarrow> \<exists>k \<in> set ks. f k = Some r"
  by (induction ks) (auto split: option.splits)

lemma first_some_None_iff: "first_some f ks = None \<longleftrightarrow> (\<forall>k \<in> set ks. f k = None)"
  by (induction ks) (auto split: option.splits)

lemma match_here_StarD:
  assumes "match_here (Star c # p) s = Some (gs, r)"
  shows "\<exists>k. match_here p (drop k s) = Some (gs, r)"
proof -
  from assms have "first_some (\<lambda>k. match_here p (drop k s))
      (rev [0 ..< Suc (length (takeWhile c s))]) = Some (gs, r)"
    by (simp only: match_here.simps)
  then show ?thesis by (blast dest: first_some_SomeD)
qed

lemma match_here_PlusD:
  assumes "match_here (Plus c # p) s = Some (gs, r)"
  shows "\<exists>k. 1 \<le> k \<and> k \<le> length (takeWhile c s) \<and> match_here p (drop k s) = Some (gs, r)"
proof -
  from assms have "first_some (\<lambda>k. match_here p (drop k s))
      (rev [1 ..< Suc (length (takeWhile c s))]) = Some (gs, r)"
    by (simp only: match_here.simps)
  then obtain k where "k \<in> set (rev [1 ..< Suc (length (takeWhile c s))])"
    "match_here p (drop k s) = Some (gs, r)"
    by (blast dest: first_some_SomeD)
  then show ?thesis by (intro exI [of _ k]) auto
qed

lemma match_here_GroupD:
  assumes "match_here (Group c # p) s = Some (gs, r)"
  shows "\<exists>k gs'. 1 \<le> k \<and> k \<le> length (takeWhile c s) \<and>
           match_here p (drop k s) = Some (gs', r) \<and> gs = take k s # gs'"
proof -
  from assms have "first_some
      (\<lambda>k. map_option (\<lambda>(gs, r). (take k s # gs, r)) (match_here p (drop k s)))
      (rev [1 ..< Suc (length (takeWhile c s))]) = Some (gs, r)"
    by (simp only: match_here.simps)
  then obtain k where k: "k \<in> set (rev [1 ..< Suc (length (takeWhile c s))])"
    and m: "map_option (\<lambda>(gs, r). (take k s # gs, r)) (match_here p (drop k s)) = Some (gs, r)"
    by (blast dest: first_some_SomeD)
  from m obtain gs' where "match_here p (drop k s) = Some (gs', r)" "gs = take k s # gs'"
    by auto
  with k show ?thesis by (intro exI [of _ k] exI [of _ gs']) auto
qed


text \<open>A match consumes at least one character for each item that is not starred.\<close>

lemma match_here_consumes:
  "match_here p s = Some (gs, r) \<Longrightarrow> length r + min_length p \<le> length s"
proof (induction p arbitrary: s gs r)
  case Nil
  then show ?case by simp
next
  case (Cons i p)
  show ?case
  proof (cases i)
    case (Chr c)
    with Cons.prems obtain x xs where "s = x # xs" "match_here p xs = Some (gs, r)"
      by (auto split: list.splits if_splits)
    with Cons.IH [of xs gs r] Chr show ?thesis by simp
  next
    case (Star c)
    with Cons.prems obtain k where "match_here p (drop k s) = Some (gs, r)"
      by (blast dest: match_here_StarD)
    with Cons.IH [of "drop k s" gs r] Star show ?thesis by simp
  next
    case (Plus c)
    with Cons.prems obtain k where k: "1 \<le> k" "k \<le> length (takeWhile c s)"
      and m: "match_here p (drop k s) = Some (gs, r)"
      by (blast dest: match_here_PlusD)
    have "length (takeWhile c s) \<le> length s" by (rule length_takeWhile_le)
    with k Cons.IH [OF m] Plus show ?thesis by simp
  next
    case (Group c)
    with Cons.prems obtain k gs' where k: "1 \<le> k" "k \<le> length (takeWhile c s)"
      and m: "match_here p (drop k s) = Some (gs', r)"
      by (blast dest: match_here_GroupD)
    have "length (takeWhile c s) \<le> length s" by (rule length_takeWhile_le)
    with k Cons.IH [OF m] Group show ?thesis by simp
  qed
qed

text \<open>\<^verbatim>\<open>re.search\<close> fails exactly when the pattern matches at no position.\<close>

lemma re_search_None_iff:
  "re_search p s = None \<longleftrightarrow> (\<forall>k \<le> length s. match_here p (drop k s) = None)"
proof (induction s)
  case Nil
  then show ?case by simp
next
  case (Cons x xs)
  have "(\<forall>k \<le> length (x # xs). match_here p (drop k (x # xs)) = None) \<longleftrightarrow>
        match_here p (x # xs) = None \<and> (\<forall>k \<le> length xs. match_here p (drop k xs) = None)"
  proof (intro iffI conjI allI impI)
    assume a: "\<forall>k \<le> length (x # xs). match_here p (drop k (x # xs)) = None"
    from a [rule_format, of 0] show "match_here p (x # xs) = None" by simp
    fix k assume "k \<le> length xs"
    with a [rule_format, of "Suc k"] show "match_here p (drop k xs) = None" by simp
  next
    fix k
    assume a: "match_here p (x # xs) = None \<and> (\<forall>k \<le> length xs. match_here p (drop k xs) = None)"
      and k: "k \<le> length (x # xs)"
    then show "match_here p (drop k (x # xs)) = None" by (cases k) auto
  qed
  with Cons show ?case by (auto split: option.splits)
qed

lemma re_search_rest:
  "re_search p s = Some (pre, gs, r) \<Longrightarrow> length r + min_length p \<le> length s"
proof (induction s arbitrary: pre)
  case Nil
  then show ?case by (auto dest: match_here_consumes)
next
  case (Cons x xs)
  show ?case
  proof (cases "match_here p (x # xs)")
    case None
    with Cons.prems obtain pre' where "re_search p xs = Some (pre', gs, r)" by auto
    with Cons.IH show ?thesis by fastforce
  next
    case (Some m)
    with Cons.prems have "match_here p (x # xs) = Some (gs, r)" by (cases m) auto
    then show ?thesis by (rule match_here_consumes)
  qed
qed

text \<open>
  A match of a pattern that consumes at least one character leaves less text than it
  was given, so \<open>re_split\<close> goes on with the rest after every match.
\<close>

lemma re_split_match:
  "re_search p s = Some (pre, gs, r) \<Longrightarrow> 0 < min_length p \<Longrightarrow> re_split p s = pre # re_split p r"
  by (frule re_search_rest) (simp add: re_split.simps [of p s])

lemma re_split_no_match: "re_search p s = None \<Longrightarrow> re_split p s = [s]"
  by (simp add: re_split.simps [of p s])

lemma re_split_length: "0 < min_length p \<Longrightarrow> (length (re_split p s) \<le> 1) = (re_search p s = None)"
proof (cases "re_search p s")
  case None
  then show ?thesis by (simp add: re_split_no_match)
next
  case (Some m)
  assume "0 < min_length p"
  with Some have "re_split p s = fst m # re_split p (snd (snd m))"
    by (cases m) (simp add: re_split_match)
  moreover have "re_split p (snd (snd m)) \<noteq> []"
    by (subst re_split.simps) (auto split: option.splits)
  ultimately show ?thesis using Some by (cases "re_split p (snd (snd m))") simp_all
qed

lemma min_length_lit [simp]: "min_length (lit s @ p) = length s + min_length p"
  by (induction s) (simp_all add: lit_def)

lemma groups_of_lit [simp]: "groups_of (lit s @ p) = groups_of p"
  by (induction s) (simp_all add: lit_def)

lemma min_length_lit_only [simp]: "min_length (lit s) = length s"
  using min_length_lit [of s "[]"] by simp

lemma groups_of_lit_only [simp]: "groups_of (lit s) = 0"
  using groups_of_lit [of s "[]"] by simp

lemma section_header_min_length: "0 < min_length section_header"
  by (simp add: section_header_def)


lemma groups_of_product_pattern: "groups_of product_pattern = 1"
  by (simp add: product_pattern_def)

section \<open>Properties of the extractor\<close>






lemma pair_sections_of_no_header:
  "re_search section_header h = None \<Longrightarrow> pair_sections_of h = [h]"
  by (simp add: pair_sections_of_def re_split_no_match)

text \<open>The pairs of the example pages.\<close>

lemma forward_row_page_no_header: "re_search section_header forward_row_page = None"
  unfolding forward_row_page_def by code_simp

lemma forward_row_page_single:
  "extract_single_pair forward_row_page (Some 1) = forward_row_pair"
  unfolding forward_row_page_def forward_row_pair_def by code_simp

lemma forward_row_page_single_Suc:
  "extract_single_pair forward_row_page (Some (Suc 0)) = forward_row_pair"
  using forward_row_page_single by simp

lemma forward_row_page_pairs: "extract_all_primer_pairs forward_row_page = [forward_row_pair]"
proof -
  have "forward_start forward_row_pair \<noteq> None" by (simp add: forward_row_pair_def)
  then show ?thesis
    by (simp add: extract_all_primer_pairs_def enumerate_eq_zip
        pair_sections_of_no_header [OF forward_row_page_no_header]
        forward_row_page_single_Suc)
qed



section \<open>Properties of the validation of one job\<close>

lemma pair_matches_total [simp]:
  "pair_matches (job\<lparr>total_primer_pairs_found := n\<rparr>) pair = pair_matches job pair"
  by (simp add: pair_matches_def)

lemma matching_loop_total [simp]:
  "matching_loop all_pairs (job\<lparr>total_primer_pairs_found := n\<rparr>) = matching_loop all_pairs job"
  by (induction all_pairs) simp_all

lemma find_matching_pair_total [simp]:
  "find_matching_pair all_pairs (job\<lparr>total_primer_pairs_found := n\<rparr>)
     = find_matching_pair all_pairs job"
  by (simp add: find_matching_pair_def)

lemma find_matching_pair_Nil: "find_matching_pair [] job = (None, False)"
  by (simp add: find_matching_pair_def)

lemma find_matching_pair_Cons:
  "\<exists>matched_pair match_found.
     find_matching_pair (pair # rest) job = (Some matched_pair, match_found)"
  by (cases "matching_loop (pair # rest) job")
     (auto simp: find_matching_pair_def simp del: matching_loop.simps)

text \<open>The two ways \<^verbatim>\<open>validate_job\<close> goes on after the extraction.\<close>

lemma validate_job_no_pairs:
  assumes "pairs_extracted net job = Some []"
  shows "fst (validate_job net job) = job\<lparr>validation_status := Some ''extraction_failed''\<rparr>"
  using assms
  by (auto simp: pairs_extracted_def page_to_extract_def validate_job_def validate_page_def
      fetch_results_def split: option.splits if_splits)

lemma validate_job_matched:
  assumes "pairs_extracted net job = Some all_pairs"
    and "find_matching_pair all_pairs job = (Some matched_pair, match_found)"
  shows "fst (validate_job net job) =
           validate_against (job\<lparr>total_primer_pairs_found := Some (length all_pairs)\<rparr>)
             matched_pair match_found"
proof -
  from assms(2) have "all_pairs \<noteq> []"
    by (auto simp: find_matching_pair_Nil)
  with assms show ?thesis
    by (auto simp: pairs_extracted_def page_to_extract_def validate_job_def validate_page_def
        fetch_results_def Let_def split: option.splits if_splits)
qed

text \<open>What the last part of \<^verbatim>\<open>validate_job\<close> stores.\<close>

lemma validation_validate_against:
  "validation (validate_against job matched_pair match_found) =
     Some \<lparr>forward_start_match =
              coordinate_check (left_primer_start job) (forward_start matched_pair),
           reverse_start_match =
              coordinate_check (right_primer_start job) (reverse_start matched_pair),
           product_size_match =
              coordinate_check (product_size job) (product_length matched_pair),
           sequences_match =
              (\<not> sequence_mismatch (forward_sequence matched_pair) (forward_primer job) \<and>
               \<not> sequence_mismatch (reverse_sequence matched_pair) (reverse_primer job))\<rparr>"
  by (simp add: validate_against_def Let_def)

lemma passed_validate_against:
  "validation_passed (validate_against job matched_pair match_found) =
     Some (coordinate_check (left_primer_start job) (forward_start matched_pair) \<and>
           coordinate_check (right_primer_start job) (reverse_start matched_pair) \<and>
           coordinate_check (product_size job) (product_length matched_pair) \<and>
           \<not> sequence_mismatch (forward_sequence matched_pair) (forward_primer job) \<and>
           \<not> sequence_mismatch (reverse_sequence matched_pair) (reverse_primer job))"
  by (simp add: validate_against_def Let_def)

lemma status_validate_against:
  "validation_status (validate_against job matched_pair match_found) =
     Some (if coordinate_check (left_primer_start job) (forward_start matched_pair) \<and>
              coordinate_check (right_primer_start job) (reverse_start matched_pair) \<and>
              coordinate_check (product_size job) (product_length matched_pair) \<and>
              \<not> sequence_mismatch (forward_sequence matched_pair) (forward_primer job) \<and>
              \<not> sequence_mismatch (reverse_sequence matched_pair) (reverse_primer job)
           then ''pass'' else ''fail'')"
  by (simp add: validate_against_def Let_def)


text \<open>The example job on the example pages.\<close>

lemma example_page_to_extract:
  "page_to_extract (serve forward_row_page) example_job = Some forward_row_page"
  by code_simp

lemma example_pairs_extracted:
  "pairs_extracted (serve forward_row_page) example_job = Some [forward_row_pair]"
  by (simp add: pairs_extracted_def example_page_to_extract forward_row_page_pairs)

lemma example_matched:
  "find_matching_pair [forward_row_pair] example_job = (Some forward_row_pair, True)"
  by (simp add: find_matching_pair_def pair_matches_def loose_eq_def forward_row_pair_def
      example_job_def)

lemma two_pair_page_to_extract:
  "page_to_extract (serve two_pair_page) example_job = Some two_pair_page"
  by code_simp

lemma two_pair_page_pairs: "extract_all_primer_pairs two_pair_page = [other_pair, exact_pair]"
  by code_simp

lemma two_pair_pairs_extracted:
  "pairs_extracted (serve two_pair_page) example_job = Some [other_pair, exact_pair]"
  by (simp add: pairs_extracted_def two_pair_page_to_extract two_pair_page_pairs)

lemma two_pair_matched:
  "find_matching_pair [other_pair, exact_pair] example_job = (Some exact_pair, True)"
  by (simp add: find_matching_pair_def pair_matches_def loose_eq_def other_pair_def
      exact_pair_def example_job_def)

text \<open>
  C8: for every job record whose result URL is absent or null, \<^verbatim>\<open>validate_job\<close> sets
  the status \<^verbatim>\<open>no_url\<close> and returns at once, changing nothing else in the record and
  sending no request.
\<close>

theorem validate_job_no_url:
  assumes "results_url job = None"
  shows "validate_job net job = (job\<lparr>validation_status := Some ''no_url''\<rparr>, [])"
  using assms by (simp add: validate_job_def)

theorem validate_job_no_url_witness:
  "results_url (example_job\<lparr>results_url := None\<rparr>) = None \<and>
   validate_job (serve forward_row_page) (example_job\<lparr>results_url := None\<rparr>)
     = (example_job\<lparr>results_url := None, validation_status := Some ''no_url''\<rparr>, [])"
  using validate_job_no_url [of "example_job\<lparr>results_url := None\<rparr>" "serve forward_row_page"]
  by simp

lemma empty_result_page_to_extract:
  "page_to_extract (serve empty_result_page) example_job = Some empty_result_page"
  by code_simp

lemma empty_result_page_pairs: "extract_all_primer_pairs empty_result_page = []"
  by code_simp

lemma empty_result_pairs_extracted:
  "pairs_extracted (serve empty_result_page) example_job = Some []"
  by (simp add: pairs_extracted_def empty_result_page_to_extract empty_result_page_pairs)

text \<open>
  C5: for the empty list of extracted pairs the matcher returns no pair, tagged
  unconfirmed; and when the extractor finds no pair on the page of a job,
  \<^verbatim>\<open>validate_job\<close> sets the status \<^verbatim>\<open>extraction_failed\<close> and returns the record
  otherwise unchanged, so without any validation field.
\<close>

theorem no_pairs_extraction_failed:
  "find_matching_pair [] job = (None, False) \<and>
   (pairs_extracted net job = Some [] \<longrightarrow>
      fst (validate_job net job) = job\<lparr>validation_status := Some ''extraction_failed''\<rparr> \<and>
      validation_status (fst (validate_job net job))
        \<in> {Some ''extraction_failed'', Some ''no_primer_data''})"
  by (simp add: find_matching_pair_Nil validate_job_no_pairs)

theorem no_pairs_extraction_failed_witness:
  "pairs_extracted (serve empty_result_page) example_job = Some [] \<and>
   fst (validate_job (serve empty_result_page) example_job)
     = example_job\<lparr>validation_status := Some ''extraction_failed''\<rparr> \<and>
   validation (fst (validate_job (serve empty_result_page) example_job)) = None"
  using no_pairs_extraction_failed [of example_job "serve empty_result_page"]
  by (simp add: empty_result_pairs_extracted) (simp add: example_job_def)

text \<open>Every status that \<^verbatim>\<open>validate_job\<close> can leave in the record.\<close>

lemma validate_page_status:
  "validation_status (validate_page html job) \<in>
     {Some ''fetch_failed'', Some ''processing'', Some ''no_primers'',
      Some ''extraction_failed'', Some ''pass'', Some ''fail''}"
proof (cases "\<exists>h pair rest. html = Some h \<and> extract_all_primer_pairs h = pair # rest")
  case False
  then have "\<And>h. html = Some h \<Longrightarrow> extract_all_primer_pairs h = []"
    by (metis neq_Nil_conv)
  then show ?thesis
    by (auto simp: validate_page_def split: option.splits)
next
  case True
  then obtain h pair rest where h: "html = Some h" "extract_all_primer_pairs h = pair # rest"
    by blast
  obtain matched_pair match_found where
    "find_matching_pair (pair # rest) job = (Some matched_pair, match_found)"
    using find_matching_pair_Cons by blast
  with h show ?thesis
    by (simp add: validate_page_def status_validate_against)
qed

lemma validate_job_status:
  "validation_status (fst (validate_job net job)) \<in>
     {Some ''no_url'', Some ''fetch_failed'', Some ''processing'', Some ''no_primers'',
      Some ''extraction_failed'', Some ''pass'', Some ''fail''}"
proof (cases "\<exists>url. results_url job = Some url \<and> url \<noteq> []")
  case False
  then show ?thesis by (auto simp: validate_job_def split: option.splits)
next
  case True
  then obtain url where "results_url job = Some url" "url \<noteq> []" by blast
  then have "fst (validate_job net job) = validate_page (net url) job"
    by (simp add: validate_job_def fetch_results_def)
  with validate_page_status [of "net url" job] show ?thesis by auto
qed

text \<open>
  C6: for every non-empty list of extracted pairs the matcher returns a pair, and no
  run of \<^verbatim>\<open>validate_job\<close> ends with the status \<^verbatim>\<open>no_primer_data\<close>: the branch that
  assigns it is never taken.
\<close>

theorem no_primer_data_unreachable:
  "(all_pairs \<noteq> [] \<longrightarrow> fst (find_matching_pair all_pairs job) \<noteq> None) \<and>
   validation_status (fst (validate_job net job)) \<noteq> Some ''no_primer_data''"
proof
  show "all_pairs \<noteq> [] \<longrightarrow> fst (find_matching_pair all_pairs job) \<noteq> None"
  proof
    assume "all_pairs \<noteq> []"
    then obtain pair rest where "all_pairs = pair # rest" by (cases all_pairs) auto
    then show "fst (find_matching_pair all_pairs job) \<noteq> None"
      using find_matching_pair_Cons [of pair rest job] by auto
  qed
  show "validation_status (fst (validate_job net job)) \<noteq> Some ''no_primer_data''"
    using validate_job_status [of net job] by auto
qed

theorem no_primer_data_unreachable_witness:
  "fst (find_matching_pair [other_pair] example_job) \<noteq> None \<and>
   validation_status (fst (validate_job (serve forward_row_page) example_job))
     \<noteq> Some ''no_primer_data''"
  using no_primer_data_unreachable [of "[other_pair]" example_job "serve forward_row_page"]
  by simp

text \<open>
  C2: for every job record that reaches the coordinate checks, \<^verbatim>\<open>validate_job\<close>
  assigns the status \<^verbatim>\<open>pass\<close> if and only if all four entries of
  \<^verbatim>\<open>validation\<close> are true, and \<^verbatim>\<open>fail\<close> whenever one of them is false.
\<close>

theorem validate_job_pass_iff_all_checks:
  assumes "pairs_extracted net job = Some all_pairs" and "all_pairs \<noteq> []"
  shows "\<exists>checks. validation (fst (validate_job net job)) = Some checks \<and>
           (validation_status (fst (validate_job net job)) = Some ''pass'')
             = (forward_start_match checks \<and> reverse_start_match checks \<and>
                product_size_match checks \<and> sequences_match checks) \<and>
           (validation_status (fst (validate_job net job)) = Some ''fail'')
             = (\<not> (forward_start_match checks \<and> reverse_start_match checks \<and>
                   product_size_match checks \<and> sequences_match checks)) \<and>
           validation_passed (fst (validate_job net job))
             = Some (forward_start_match checks \<and> reverse_start_match checks \<and>
                     product_size_match checks \<and> sequences_match checks)"
proof -
  from assms(2) obtain pair rest where "all_pairs = pair # rest" by (cases all_pairs) auto
  then obtain matched_pair match_found where
    "find_matching_pair all_pairs job = (Some matched_pair, match_found)"
    using find_matching_pair_Cons [of pair rest job] by auto
  with assms(1) have
    "fst (validate_job net job) =
       validate_against (job\<lparr>total_primer_pairs_found := Some (length all_pairs)\<rparr>)
         matched_pair match_found"
    by (rule validate_job_matched)
  then show ?thesis
    by (simp add: validation_validate_against status_validate_against passed_validate_against)
qed

theorem validate_job_pass_iff_all_checks_witness:
  "pairs_extracted (serve forward_row_page) example_job = Some [forward_row_pair] \<and>
   (\<exists>checks. validation (fst (validate_job (serve forward_row_page) example_job)) = Some checks \<and>
      forward_start_match checks \<and> \<not> reverse_start_match checks) \<and>
   validation_status (fst (validate_job (serve forward_row_page) example_job)) = Some ''fail'' \<and>
   pairs_extracted (serve two_pair_page) example_job = Some [other_pair, exact_pair] \<and>
   (\<exists>checks. validation (fst (validate_job (serve two_pair_page) example_job)) = Some checks \<and>
      forward_start_match checks \<and> reverse_start_match checks \<and>
      product_size_match checks \<and> sequences_match checks) \<and>
   validation_status (fst (validate_job (serve two_pair_page) example_job)) = Some ''pass'' \<and>
   matched_pair_index (fst (validate_job (serve two_pair_page) example_job)) = Some 2"
proof -
  let ?job = "fst (validate_job (serve forward_row_page) example_job)"
  have run: "?job = validate_against
      (example_job\<lparr>total_primer_pairs_found := Some (length [forward_row_pair])\<rparr>)
      forward_row_pair True"
    using example_pairs_extracted example_matched by (rule validate_job_matched)
  have fwd: "coordinate_check (left_primer_start example_job) (forward_start forward_row_pair)"
    by (simp add: coordinate_check_def example_job_def forward_row_pair_def)
  have rev: "\<not> coordinate_check (right_primer_start example_job) (reverse_start forward_row_pair)"
    by (simp add: coordinate_check_def example_job_def forward_row_pair_def)
  from validate_job_pass_iff_all_checks [OF example_pairs_extracted]
  obtain checks where checks: "validation ?job = Some checks"
    and fail: "(validation_status ?job = Some ''fail'')
             = (\<not> (forward_start_match checks \<and> reverse_start_match checks \<and>
                   product_size_match checks \<and> sequences_match checks))"
    by auto
  from checks run fwd rev have "forward_start_match checks \<and> \<not> reverse_start_match checks"
    by (auto simp: validation_validate_against)
  with checks fail have failing:
    "(\<exists>checks. validation ?job = Some checks \<and>
        forward_start_match checks \<and> \<not> reverse_start_match checks) \<and>
     validation_status ?job = Some ''fail''"
    by auto
  let ?job2 = "fst (validate_job (serve two_pair_page) example_job)"
  have run2: "?job2 = validate_against
      (example_job\<lparr>total_primer_pairs_found := Some (length [other_pair, exact_pair])\<rparr>)
      exact_pair True"
    using two_pair_pairs_extracted two_pair_matched by (rule validate_job_matched)
  have same: "upper ''AC'' = upper ''ac''" by code_simp
  have status2: "validation_status ?job2 = Some ''pass''"
    unfolding run2
    by (simp add: status_validate_against coordinate_check_def sequence_mismatch_def
        truthy_def exact_pair_def example_job_def same)
  have index2: "matched_pair_index ?job2 = Some 2"
    unfolding run2
    by (simp add: validate_against_def Let_def exact_pair_def)
  from validate_job_pass_iff_all_checks [OF two_pair_pairs_extracted]
  obtain checks2 where "validation ?job2 = Some checks2"
    and "(validation_status ?job2 = Some ''pass'')
             = (forward_start_match checks2 \<and> reverse_start_match checks2 \<and>
                product_size_match checks2 \<and> sequences_match checks2)"
    by auto
  with status2 have passing:
    "\<exists>checks. validation ?job2 = Some checks \<and>
        forward_start_match checks \<and> reverse_start_match checks \<and>
        product_size_match checks \<and> sequences_match checks"
    by auto
  from failing passing status2 index2 show ?thesis
    by (simp only: example_pairs_extracted two_pair_pairs_extracted simp_thms)
qed

text \<open>
  C3: for every job record that reaches the coordinate checks, a check whose expected
  value is absent, or whose field of the matched pair is null, stays false, although the
  matcher's test of the same two values passes; and then the job does not pass and its
  status is \<^verbatim>\<open>fail\<close>.
\<close>

theorem null_coordinate_fails:
  assumes "pairs_extracted net job = Some all_pairs"
    and "find_matching_pair all_pairs job = (Some matched_pair, match_found)"
  shows "\<exists>checks. validation (fst (validate_job net job)) = Some checks \<and>
           (left_primer_start job = None \<or> forward_start matched_pair = None \<longrightarrow>
              loose_eq (left_primer_start job) (forward_start matched_pair) \<and>
              \<not> forward_start_match checks) \<and>
           (right_primer_start job = None \<or> reverse_start matched_pair = None \<longrightarrow>
              loose_eq (right_primer_start job) (reverse_start matched_pair) \<and>
              \<not> reverse_start_match checks) \<and>
           (product_size job = None \<or> product_length matched_pair = None \<longrightarrow>
              loose_eq (product_size job) (product_length matched_pair) \<and>
              \<not> product_size_match checks) \<and>
           (left_primer_start job = None \<or> forward_start matched_pair = None \<or>
            right_primer_start job = None \<or> reverse_start matched_pair = None \<or>
            product_size job = None \<or> product_length matched_pair = None \<longrightarrow>
              validation_passed (fst (validate_job net job)) = Some False \<and>
              validation_status (fst (validate_job net job)) = Some ''fail'')"
proof -
  have "fst (validate_job net job) =
       validate_against (job\<lparr>total_primer_pairs_found := Some (length all_pairs)\<rparr>)
         matched_pair match_found"
    using assms by (rule validate_job_matched)
  then show ?thesis
    by (auto simp: validation_validate_against status_validate_against
        passed_validate_against coordinate_check_def loose_eq_def split: option.splits)
qed

theorem null_coordinate_fails_witness:
  "find_matching_pair [forward_row_pair] example_job = (Some forward_row_pair, True) \<and>
   reverse_start forward_row_pair = None \<and>
   validation_passed (fst (validate_job (serve forward_row_page) example_job)) = Some False \<and>
   validation_status (fst (validate_job (serve forward_row_page) example_job)) = Some ''fail''"
proof -
  have none: "reverse_start forward_row_pair = None"
    by (simp add: forward_row_pair_def)
  from null_coordinate_fails [OF example_pairs_extracted example_matched] none
  have "validation_passed (fst (validate_job (serve forward_row_page) example_job)) = Some False \<and>
    validation_status (fst (validate_job (serve forward_row_page) example_job)) = Some ''fail''"
    by auto
  with example_matched none show ?thesis by simp
qed



section \<open>Properties of the validation of a batch\<close>









text \<open>With a checkpoint interval of zero the first completion raises.\<close>

lemma collect_zero_interval:
  "idx < length (validated_jobs st) \<Longrightarrow>
     collect 0 ((idx, validated_job) # rest) st = Inl ZeroDivisionError"
  by (simp add: Let_def)



end
